theory Spec2Isabelle
  imports Main
begin

section \<open>The builder-chain option library (package opt)\<close>

text \<open>
  The embedding follows the builder-chain form of the package (\<^verbatim>\<open>Parse\<close>, \<^verbatim>\<open>opt.Lookup\<close>,
  \<^verbatim>\<open>opt.MustLookup\<close>, the five link kinds \<^verbatim>\<open>bRoot\<close>, \<^verbatim>\<open>bFlag\<close>, \<^verbatim>\<open>bEnv\<close>,
  \<^verbatim>\<open>bDefault\<close>, \<^verbatim>\<open>bUsage\<close> and the three root constructors).

  \<^item> A Go panic is a value of type \<open>error\<close>; a function that can panic returns
    \<open>error + 'a\<close> with \<open>Inl\<close> for the panic.
  \<^item> Go's comma-ok results of the facet queries stay pairs and triples, as in the code.
    The result \<^verbatim>\<open>(v T, ok bool)\<close> of \<^verbatim>\<open>Lookup\<close> is an \<open>'a option\<close>: \<open>None\<close> stands for
    \<^verbatim>\<open>(zero, false)\<close> and \<open>Some v\<close> for \<^verbatim>\<open>(v, true)\<close>.
  \<^item> The type parameter \<^verbatim>\<open>T\<close> of the code is the type variable \<open>'a\<close>. The registry
    \<^verbatim>\<open>pkgSet\<close> holds options of any \<^verbatim>\<open>T\<close>; here it holds options of one type \<open>'a\<close>,
    which can be a sum of the value types: the hooks never call the converter.
  \<^item> \<^verbatim>\<open>bFlag\<close> is the only link kind used through a pointer, and \<^verbatim>\<open>bFlag.beforeParse\<close>
    assigns to \<^verbatim>\<open>b.flagName\<close>. Its fields therefore live in an explicit store, a list of
    cells indexed by address; a flag link of a chain holds the address. The field \<^verbatim>\<open>up\<close>
    of every link is written once, when the link is created, and is kept in the link.
    The other link kinds are struct values, copied into the interface value.
\<close>

subsection \<open>Errors\<close>

datatype error =
    MissingOption                \<comment> \<open>\<^verbatim>\<open>panic("opt: missing expected opt")\<close>\<close>
  | ConversionFailure string     \<comment> \<open>\<^verbatim>\<open>panic(fmt.Errorf("opt: failed to parse %q into ...", in))\<close>\<close>

subsection \<open>The descriptor chain\<close>

text \<open>The fields of \<^verbatim>\<open>bFlag\<close> that are read or written (\<^verbatim>\<open>v\<close> and \<^verbatim>\<open>ok\<close> never are).\<close>

record bFlag =
  flagName :: string
  flagShorthand :: string
  isDir :: bool
  isFile :: bool
  isRequired :: bool

datatype 'a Builder =
    BRoot string "string \<Rightarrow> error + 'a"   \<comment> \<open>\<^verbatim>\<open>bRoot{key, convFunc}\<close>, \<^verbatim>\<open>up == nil\<close>\<close>
  | BFlag "'a Builder" nat                  \<comment> \<open>\<^verbatim>\<open>*bFlag\<close>: \<^verbatim>\<open>up\<close> and the address of the cell\<close>
  | BEnv "'a Builder" string                \<comment> \<open>\<^verbatim>\<open>bEnv{up, envName}\<close>\<close>
  | BDefault "'a Builder" string            \<comment> \<open>\<^verbatim>\<open>bDefault{up, def}\<close>\<close>
  | BUsage "'a Builder" string              \<comment> \<open>\<^verbatim>\<open>bUsage{up, usage}\<close>\<close>

type_synonym store = "bFlag list"

text \<open>
  The facet queries. Every link kind embeds \<^verbatim>\<open>bCommon\<close>, whose methods forward to
  \<^verbatim>\<open>up\<close> and return the zero result when \<^verbatim>\<open>up\<close> is nil, which is the case at the root
  only; a link kind that defines a facet overrides the method.
\<close>

fun getKey :: "'a Builder \<Rightarrow> string" where
  "getKey (BRoot key convFunc) = key"
| "getKey (BFlag up a) = getKey up"
| "getKey (BEnv up envName) = getKey up"
| "getKey (BDefault up def) = getKey up"
| "getKey (BUsage up usage) = getKey up"

fun getFlag :: "store \<Rightarrow> 'a Builder \<Rightarrow> string \<times> string \<times> bool" where
  "getFlag h (BRoot key convFunc) = ([], [], False)"
| "getFlag h (BFlag up a) = (flagName (h ! a), flagShorthand (h ! a), True)"
| "getFlag h (BEnv up envName) = getFlag h up"
| "getFlag h (BDefault up def) = getFlag h up"
| "getFlag h (BUsage up usage) = getFlag h up"

fun getEnv :: "'a Builder \<Rightarrow> string \<times> bool" where
  "getEnv (BRoot key convFunc) = ([], False)"
| "getEnv (BFlag up a) = getEnv up"
| "getEnv (BEnv up envName) = (envName, True)"
| "getEnv (BDefault up def) = getEnv up"
| "getEnv (BUsage up usage) = getEnv up"

fun getDefault :: "'a Builder \<Rightarrow> string \<times> bool" where
  "getDefault (BRoot key convFunc) = ([], False)"
| "getDefault (BFlag up a) = getDefault up"
| "getDefault (BEnv up envName) = getDefault up"
| "getDefault (BDefault up def) = (def, True)"
| "getDefault (BUsage up usage) = getDefault up"

fun getUsage :: "'a Builder \<Rightarrow> string \<times> bool" where
  "getUsage (BRoot key convFunc) = ([], False)"
| "getUsage (BFlag up a) = getUsage up"
| "getUsage (BEnv up envName) = getUsage up"
| "getUsage (BDefault up def) = getUsage up"
| "getUsage (BUsage up usage) = (usage, True)"

fun getConvFunc :: "'a Builder \<Rightarrow> (string \<Rightarrow> error + 'a)" where
  "getConvFunc (BRoot key convFunc) = convFunc"
| "getConvFunc (BFlag up a) = getConvFunc up"
| "getConvFunc (BEnv up envName) = getConvFunc up"
| "getConvFunc (BDefault up def) = getConvFunc up"
| "getConvFunc (BUsage up usage) = getConvFunc up"

text \<open>
  A chain refers to allocated cells only: Go has no dangling pointers, the list has
  unspecified elements beyond its length.
\<close>

fun allocated :: "store \<Rightarrow> 'a Builder \<Rightarrow> bool" where
  "allocated h (BRoot key convFunc) = True"
| "allocated h (BFlag up a) = (a < length h \<and> allocated h up)"
| "allocated h (BEnv up envName) = allocated h up"
| "allocated h (BDefault up def) = allocated h up"
| "allocated h (BUsage up usage) = allocated h up"

subsection \<open>The external flag library and the process state\<close>

text \<open>
  Modelled from the spec: the external flag library (\<^verbatim>\<open>pflag\<close>, \<^verbatim>\<open>cobra\<close>), which is not
  part of the repository, at the interface of section 6 of the specification: register
  a string flag, look a flag up by name, mark it as directory, file or required. The flag
  set \<^verbatim>\<open>pflag.CommandLine\<close> is the list of the registered flags in registration order.
  What the library does when a name is registered twice, or when the process arguments
  are malformed, is outside this interface and outside the embedding.
\<close>

record pflag_Flag =
  Name :: string
  Shorthand :: string
  UsageText :: string
  Value :: string
  DefValue :: string
  Changed :: bool
  markedDirname :: bool
  markedFilename :: bool
  markedRequired :: bool

type_synonym FlagSet = "pflag_Flag list"

definition pflag_StringP :: "string \<Rightarrow> string \<Rightarrow> string \<Rightarrow> string \<Rightarrow> FlagSet \<Rightarrow> FlagSet" where
  "pflag_StringP name shorthand val usage fs =
     fs @ [\<lparr>Name = name, Shorthand = shorthand, UsageText = usage, Value = val,
            DefValue = val, Changed = False, markedDirname = False,
            markedFilename = False, markedRequired = False\<rparr>]"

definition pflag_Lookup :: "FlagSet \<Rightarrow> string \<Rightarrow> pflag_Flag option" where
  "pflag_Lookup fs name = find (\<lambda>f. Name f = name) fs"

fun annotate :: "(pflag_Flag \<Rightarrow> pflag_Flag) \<Rightarrow> string \<Rightarrow> FlagSet \<Rightarrow> FlagSet" where
  "annotate g name [] = []"
| "annotate g name (f # fs) = (if Name f = name then g f # fs else f # annotate g name fs)"

definition cobra_MarkFlagDirname :: "string \<Rightarrow> FlagSet \<Rightarrow> FlagSet" where
  "cobra_MarkFlagDirname name fs = annotate (\<lambda>f. f\<lparr>markedDirname := True\<rparr>) name fs"

definition cobra_MarkFlagFilename :: "string \<Rightarrow> FlagSet \<Rightarrow> FlagSet" where
  "cobra_MarkFlagFilename name fs = annotate (\<lambda>f. f\<lparr>markedFilename := True\<rparr>) name fs"

definition cobra_MarkFlagRequired :: "string \<Rightarrow> FlagSet \<Rightarrow> FlagSet" where
  "cobra_MarkFlagRequired name fs = annotate (\<lambda>f. f\<lparr>markedRequired := True\<rparr>) name fs"

text \<open>
  The events of \<^verbatim>\<open>Parse\<close>: a history variable, written by \<^verbatim>\<open>Parse\<close> and read by no
  definition. A hook is named by the index of its option in \<^verbatim>\<open>pkgSet\<close>.
\<close>

datatype event = BeforeParseHook nat | PflagParse | AfterParseHook nat

datatype 'a opt = Opt (builder: "'a Builder")

text \<open>
  The package state: the cells of the flag links, the flag set of the library, the
  registry \<^verbatim>\<open>pkgSet\<close> and the history. The process environment is read only and is a
  parameter \<open>env\<close> of the lookups, a map from names to values (\<^verbatim>\<open>os.LookupEnv\<close>).
\<close>

record 'a world =
  heap :: store
  CommandLine :: FlagSet
  pkgSet :: "'a opt list"
  history :: "event list"

type_synonym environ = "string \<Rightarrow> string option"

subsection \<open>Construction of chains\<close>

text \<open>
  \<^verbatim>\<open>FlagOptFunc\<close> is a function on the new flag link; the package defines three.
  \<^verbatim>\<open>applyOpts\<close> applies them in order, and \<^verbatim>\<open>newFlagBuilder\<close> allocates the cell.
\<close>

type_synonym FlagOptFunc = "bFlag \<Rightarrow> bFlag"

definition FlagIsDirName :: FlagOptFunc where
  "FlagIsDirName b = b\<lparr>isDir := True\<rparr>"

definition FlagIsFileName :: FlagOptFunc where
  "FlagIsFileName b = b\<lparr>isFile := True\<rparr>"

definition FlagIsRequired :: FlagOptFunc where
  "FlagIsRequired b = b\<lparr>isRequired := True\<rparr>"

fun applyOpts :: "bFlag \<Rightarrow> FlagOptFunc list \<Rightarrow> bFlag" where
  "applyOpts b [] = b"
| "applyOpts b (optFunc # optFuncs) = applyOpts (optFunc b) optFuncs"

definition newFlagBuilder ::
  "'a Builder \<Rightarrow> string \<Rightarrow> string \<Rightarrow> FlagOptFunc list \<Rightarrow> 'a world \<Rightarrow> 'a Builder \<times> 'a world" where
  "newFlagBuilder b name shorthand optFuncs w =
     (BFlag b (length (heap w)),
      w\<lparr>heap := heap w @
         [applyOpts \<lparr>flagName = name, flagShorthand = shorthand, isDir = False,
                     isFile = False, isRequired = False\<rparr> optFuncs]\<rparr>)"

definition Flag :: "'a Builder \<Rightarrow> string \<Rightarrow> FlagOptFunc list \<Rightarrow> 'a world \<Rightarrow> 'a Builder \<times> 'a world" where
  "Flag b name optFuncs w = newFlagBuilder b name [] optFuncs w"

definition FlagP ::
  "'a Builder \<Rightarrow> string \<Rightarrow> string \<Rightarrow> FlagOptFunc list \<Rightarrow> 'a world \<Rightarrow> 'a Builder \<times> 'a world" where
  "FlagP b name shorthand optFuncs w = newFlagBuilder b name shorthand optFuncs w"

definition Env :: "'a Builder \<Rightarrow> string \<Rightarrow> 'a Builder" where
  "Env b envName = BEnv b envName"

definition Default :: "'a Builder \<Rightarrow> string \<Rightarrow> 'a Builder" where
  "Default b v = BDefault b v"

definition Usage :: "'a Builder \<Rightarrow> string \<Rightarrow> 'a Builder" where
  "Usage b usage = BUsage b usage"

definition Build :: "'a Builder \<Rightarrow> 'a world \<Rightarrow> 'a opt \<times> 'a world" where
  "Build b w = (Opt b, w\<lparr>pkgSet := pkgSet w @ [Opt b]\<rparr>)"

subsection \<open>Type conversion\<close>

text \<open>
  \<^verbatim>\<open>strconv.ParseBool\<close> and \<^verbatim>\<open>strconv.Atoi\<close> belong to the Go standard library; they are
  stated from its documentation. \<^verbatim>\<open>ParseBool\<close> accepts twelve spellings. \<^verbatim>\<open>Atoi\<close> accepts
  an optional sign followed by one or more decimal digits and fails when the number does
  not fit \<^verbatim>\<open>int\<close>, taken as 64 bits wide. \<open>None\<close> is a non-nil \<^verbatim>\<open>err\<close>.
\<close>

definition strconv_ParseBool :: "string \<Rightarrow> bool option" where
  "strconv_ParseBool str =
     (if str \<in> set [''1'', ''t'', ''T'', ''true'', ''TRUE'', ''True''] then Some True
      else if str \<in> set [''0'', ''f'', ''F'', ''false'', ''FALSE'', ''False''] then Some False
      else None)"

definition digit :: "char \<Rightarrow> nat option" where
  "digit ch =
     (let n = (of_char ch :: nat) in if 48 \<le> n \<and> n \<le> 57 then Some (n - 48) else None)"

fun digits :: "nat \<Rightarrow> string \<Rightarrow> nat option" where
  "digits n [] = Some n"
| "digits n (ch # s) = (case digit ch of None \<Rightarrow> None | Some d \<Rightarrow> digits (n * 10 + d) s)"

definition strconv_Atoi :: "string \<Rightarrow> int option" where
  "strconv_Atoi s =
     (let neg = (s \<noteq> [] \<and> hd s = CHR ''-'');
          s1 = (if s \<noteq> [] \<and> (hd s = CHR ''-'' \<or> hd s = CHR ''+'') then tl s else s)
      in if s1 = [] then None
         else case digits 0 s1 of
                None \<Rightarrow> None
              | Some n \<Rightarrow>
                  (let i = (if neg then - int n else int n)
                   in if - (2 ^ 63) \<le> i \<and> i < 2 ^ 63 then Some i else None))"

definition BuildString :: "string \<Rightarrow> string Builder" where
  "BuildString key = BRoot key (\<lambda>inp. Inr inp)"

definition BuildBool :: "string \<Rightarrow> bool Builder" where
  "BuildBool key =
     BRoot key (\<lambda>inp. case strconv_ParseBool inp of
                        None \<Rightarrow> Inl (ConversionFailure inp)
                      | Some b \<Rightarrow> Inr b)"

definition BuildInt :: "string \<Rightarrow> int Builder" where
  "BuildInt key =
     BRoot key (\<lambda>inp. case strconv_Atoi inp of
                        None \<Rightarrow> Inl (ConversionFailure inp)
                      | Some i \<Rightarrow> Inr i)"

subsection \<open>Value lookup\<close>

text \<open>
  \<open>lookupStr\<close> is the function literal that \<^verbatim>\<open>Lookup\<close> calls first: it picks the winning
  text. \<^verbatim>\<open>Lookup\<close> converts that text; a panic of the converter is a panic of \<^verbatim>\<open>Lookup\<close>.
\<close>

definition lookupStr :: "environ \<Rightarrow> 'a world \<Rightarrow> 'a opt \<Rightarrow> string \<times> bool" where
  "lookupStr env w opt =
     (let fromDefault =
            (case getDefault (builder opt) of
               (defVal, True) \<Rightarrow> (defVal, True)
             | (defVal, False) \<Rightarrow> ([], False));
          fromEnv =
            (case getEnv (builder opt) of
               (envName, True) \<Rightarrow>
                 (case env envName of Some envVal \<Rightarrow> (envVal, True) | None \<Rightarrow> fromDefault)
             | (envName, False) \<Rightarrow> fromDefault)
      in case getFlag (heap w) (builder opt) of
           (name, shorthand, True) \<Rightarrow>
             (case pflag_Lookup (CommandLine w) name of
                None \<Rightarrow> fromEnv
              | Some v \<Rightarrow> if Changed v then (Value v, True) else fromEnv)
         | (name, shorthand, False) \<Rightarrow> fromEnv)"

definition Lookup :: "environ \<Rightarrow> 'a world \<Rightarrow> 'a opt \<Rightarrow> error + 'a option" where
  "Lookup env w opt =
     (case lookupStr env w opt of
        (str, False) \<Rightarrow> Inr None
      | (str, True) \<Rightarrow>
          (case getConvFunc (builder opt) str of Inl e \<Rightarrow> Inl e | Inr v \<Rightarrow> Inr (Some v)))"

definition MustLookup :: "environ \<Rightarrow> 'a world \<Rightarrow> 'a opt \<Rightarrow> error + 'a" where
  "MustLookup env w opt =
     (case Lookup env w opt of
        Inl e \<Rightarrow> Inl e
      | Inr None \<Rightarrow> Inl MissingOption
      | Inr (Some v) \<Rightarrow> Inr v)"

subsection \<open>The lifecycle driver\<close>

text \<open>
  \<^verbatim>\<open>bFlag.beforeParse\<close> for the cell at address \<open>a\<close>, after the call of
  \<^verbatim>\<open>b.bCommon.beforeParse(bd)\<close>: an empty name is replaced by the key of the chain \<open>bd\<close>,
  in the cell itself; a name that is still empty ends the hook; otherwise the flag is
  registered with the default and usage texts of \<open>bd\<close> and marked.
\<close>

definition registerFlag :: "nat \<Rightarrow> 'a Builder \<Rightarrow> 'a world \<Rightarrow> 'a world" where
  "registerFlag a bd w =
     (let w1 = (if flagName (heap w ! a) = []
                then w\<lparr>heap := (heap w)[a := (heap w ! a)\<lparr>flagName := getKey bd\<rparr>]\<rparr>
                else w);
          b = heap w1 ! a
      in if flagName b = [] then w1
         else
           (let fs1 = pflag_StringP (flagName b) (flagShorthand b)
                        (fst (getDefault bd)) (fst (getUsage bd)) (CommandLine w1);
                fs2 = (if isDir b then cobra_MarkFlagDirname (flagName b) fs1 else fs1);
                fs3 = (if isFile b then cobra_MarkFlagFilename (flagName b) fs2 else fs2);
                fs4 = (if isRequired b then cobra_MarkFlagRequired (flagName b) fs3 else fs3)
            in w1\<lparr>CommandLine := fs4\<rparr>))"

fun beforeParse :: "'a Builder \<Rightarrow> 'a Builder \<Rightarrow> 'a world \<Rightarrow> 'a world" where
  "beforeParse (BRoot key convFunc) bd w = w"
| "beforeParse (BFlag up a) bd w = registerFlag a bd (beforeParse up bd w)"
| "beforeParse (BEnv up envName) bd w = beforeParse up bd w"
| "beforeParse (BDefault up def) bd w = beforeParse up bd w"
| "beforeParse (BUsage up usage) bd w = beforeParse up bd w"

fun afterParse :: "'a Builder \<Rightarrow> 'a Builder \<Rightarrow> 'a world \<Rightarrow> 'a world" where
  "afterParse (BRoot key convFunc) bd w = w"
| "afterParse (BFlag up a) bd w = afterParse up bd w"
| "afterParse (BEnv up envName) bd w = afterParse up bd w"
| "afterParse (BDefault up def) bd w = afterParse up bd w"
| "afterParse (BUsage up usage) bd w = afterParse up bd w"

definition opt_beforeParse :: "'a opt \<Rightarrow> 'a world \<Rightarrow> 'a world" where
  "opt_beforeParse opt w = beforeParse (builder opt) (builder opt) w"

definition opt_afterParse :: "'a opt \<Rightarrow> 'a world \<Rightarrow> 'a world" where
  "opt_afterParse opt w = afterParse (builder opt) (builder opt) w"

text \<open>
  The two loops of \<^verbatim>\<open>Parse\<close> over \<^verbatim>\<open>pkgSet\<close>; \<open>i\<close> is the index of the next option. The
  external parse step \<open>pflag_Parse\<close> is a parameter: any function on the flag set.
\<close>

fun beforeLoop :: "nat \<Rightarrow> 'a opt list \<Rightarrow> 'a world \<Rightarrow> 'a world" where
  "beforeLoop i [] w = w"
| "beforeLoop i (opt # opts) w =
     beforeLoop (Suc i) opts (opt_beforeParse opt (w\<lparr>history := history w @ [BeforeParseHook i]\<rparr>))"

fun afterLoop :: "nat \<Rightarrow> 'a opt list \<Rightarrow> 'a world \<Rightarrow> 'a world" where
  "afterLoop i [] w = w"
| "afterLoop i (opt # opts) w =
     afterLoop (Suc i) opts (opt_afterParse opt (w\<lparr>history := history w @ [AfterParseHook i]\<rparr>))"

definition Parse :: "(FlagSet \<Rightarrow> FlagSet) \<Rightarrow> 'a world \<Rightarrow> 'a world" where
  "Parse pflag_Parse w =
     (let w1 = beforeLoop 0 (pkgSet w) w;
          w2 = w1\<lparr>CommandLine := pflag_Parse (CommandLine w1),
                  history := history w1 @ [PflagParse]\<rparr>
      in afterLoop 0 (pkgSet w2) w2)"

subsection \<open>The state at program start\<close>

text \<open>No flag link allocated, no flag registered, \<^verbatim>\<open>pkgSet\<close> nil.\<close>

definition initial :: "'a world" where
  "initial = \<lparr>heap = [], CommandLine = [], pkgSet = [], history = []\<rparr>"

section \<open>The resolution order in the words of the specification\<close>

text \<open>
  The three sources of section 4.2 of the specification, each as the text it supplies
  if it supplies one: the flag source (the chain defines a flag facet and the library
  reports the flag as explicitly changed), the environment source (the chain defines an
  environment facet and the variable is present) and the default source (the chain
  defines a default facet). \<open>converted\<close> passes a text through the converter of the chain.
\<close>

definition flagSource :: "'a world \<Rightarrow> 'a Builder \<Rightarrow> string option" where
  "flagSource w b =
     (if snd (snd (getFlag (heap w) b))
      then (case pflag_Lookup (CommandLine w) (fst (getFlag (heap w) b)) of
              None \<Rightarrow> None
            | Some f \<Rightarrow> if Changed f then Some (Value f) else None)
      else None)"

definition envSource :: "environ \<Rightarrow> 'a Builder \<Rightarrow> string option" where
  "envSource env b = (if snd (getEnv b) then env (fst (getEnv b)) else None)"

definition defaultSource :: "'a Builder \<Rightarrow> string option" where
  "defaultSource b = (if snd (getDefault b) then Some (fst (getDefault b)) else None)"

definition converted :: "(string \<Rightarrow> error + 'a) \<Rightarrow> string \<Rightarrow> error + 'a option" where
  "converted convFunc str = (case convFunc str of Inl e \<Rightarrow> Inl e | Inr v \<Rightarrow> Inr (Some v))"

text \<open>Flag over environment over default, and not found when no source supplies a text.\<close>

definition Lookup_by_precedence :: "environ \<Rightarrow> 'a world \<Rightarrow> 'a opt \<Rightarrow> error + 'a option" where
  "Lookup_by_precedence env w opt =
     (case flagSource w (builder opt) of
        Some flagStr \<Rightarrow> converted (getConvFunc (builder opt)) flagStr
      | None \<Rightarrow>
          (case envSource env (builder opt) of
             Some envStr \<Rightarrow> converted (getConvFunc (builder opt)) envStr
           | None \<Rightarrow>
               (case defaultSource (builder opt) of
                  Some defStr \<Rightarrow> converted (getConvFunc (builder opt)) defStr
                | None \<Rightarrow> Inr None)))"

text \<open>The resolution of an option that has no flag source: environment over default.\<close>

definition Lookup_without_flag :: "environ \<Rightarrow> 'a opt \<Rightarrow> error + 'a option" where
  "Lookup_without_flag env opt =
     (case envSource env (builder opt) of
        Some envStr \<Rightarrow> converted (getConvFunc (builder opt)) envStr
      | None \<Rightarrow>
          (case defaultSource (builder opt) of
             Some defStr \<Rightarrow> converted (getConvFunc (builder opt)) defStr
           | None \<Rightarrow> Inr None))"

text \<open>The root link of a chain, where the key and the converter were fixed.\<close>

fun root :: "'a Builder \<Rightarrow> 'a Builder" where
  "root (BRoot key convFunc) = BRoot key convFunc"
| "root (BFlag up a) = root up"
| "root (BEnv up envName) = root up"
| "root (BDefault up def) = root up"
| "root (BUsage up usage) = root up"

text \<open>
  The name a flag facet is registered under, by the two tests at the head of
  \<^verbatim>\<open>bFlag.beforeParse\<close>: the flag name of the chain, or the key when that name is empty.
\<close>

definition effectiveFlagName :: "store \<Rightarrow> 'a Builder \<Rightarrow> string" where
  "effectiveFlagName h b = (if fst (getFlag h b) = [] then getKey b else fst (getFlag h b))"

text \<open>Every flag link of the chain, shadowed or not, has an empty name.\<close>

fun flagLinksUnnamed :: "store \<Rightarrow> 'a Builder \<Rightarrow> bool" where
  "flagLinksUnnamed h (BRoot key convFunc) = True"
| "flagLinksUnnamed h (BFlag up a) = (flagName (h ! a) = [] \<and> flagLinksUnnamed h up)"
| "flagLinksUnnamed h (BEnv up envName) = flagLinksUnnamed h up"
| "flagLinksUnnamed h (BDefault up def) = flagLinksUnnamed h up"
| "flagLinksUnnamed h (BUsage up usage) = flagLinksUnnamed h up"

text \<open>
  The cells of the flag links of a chain, from the link that the queries see down to the
  root. A cell holds the whole flag facet: name, shorthand and the annotations
  \<^verbatim>\<open>isDir\<close>, \<^verbatim>\<open>isFile\<close>, \<^verbatim>\<open>isRequired\<close>.
\<close>

fun flagCells :: "store \<Rightarrow> 'a Builder \<Rightarrow> bFlag list" where
  "flagCells h (BRoot key convFunc) = []"
| "flagCells h (BFlag up a) = h ! a # flagCells h up"
| "flagCells h (BEnv up envName) = flagCells h up"
| "flagCells h (BDefault up def) = flagCells h up"
| "flagCells h (BUsage up usage) = flagCells h up"

text \<open>
  What a chain answers and holds: key, flag, the cells of its flag links with their
  annotations, environment, default and usage.
\<close>

definition facets ::
  "store \<Rightarrow> 'a Builder \<Rightarrow>
     string \<times> (string \<times> string \<times> bool) \<times> bFlag list \<times>
     (string \<times> bool) \<times> (string \<times> bool) \<times> (string \<times> bool)" where
  "facets h b = (getKey b, getFlag h b, flagCells h b, getEnv b, getDefault b, getUsage b)"

section \<open>Programs used as examples\<close>

text \<open>
  Modelled from the spec: an external parse step whose process arguments supply the
  value \<open>val\<close> for the flag \<open>name\<close>; it sets the value and the changed state of that flag.
\<close>

definition supplied :: "string \<Rightarrow> string \<Rightarrow> FlagSet \<Rightarrow> FlagSet" where
  "supplied name val fs = annotate (\<lambda>f. f\<lparr>Value := val, Changed := True\<rparr>) name fs"

text \<open>
  \<^verbatim>\<open>BuildInt("port").FlagP("port", "p").Env("PORT").Default("8080")\<close>: the chain with
  the state after its construction, and the state after \<^verbatim>\<open>Build()\<close>.
\<close>

definition port_chain :: "int Builder \<times> int world" where
  "port_chain =
     (let (b, w) = FlagP (BuildInt ''port'') ''port'' ''p'' [] initial
      in (Default (Env b ''PORT'') ''8080'', w))"

definition port_declared :: "int world" where
  "port_declared = snd (Build (fst port_chain) (snd port_chain))"

text \<open>
  \<^verbatim>\<open>BuildString("").Flag("verbose").Flag("")\<close>: the second flag link shadows the first.
\<close>

definition shadowed :: "string Builder \<times> string world" where
  "shadowed =
     (let (b1, w1) = Flag (BuildString []) ''verbose'' [] initial
      in Flag b1 [] [] w1)"

text \<open>\<^verbatim>\<open>BuildString("").Flag("").Default("plain")\<close>: no key and no flag name.\<close>

definition unnamed :: "string Builder \<times> string world" where
  "unnamed =
     (let (b, w) = Flag (BuildString []) [] [] initial
      in (Default b ''plain'', w))"

text \<open>Three options declared in the order A, B, C, each with a flag.\<close>

definition abc_declared :: "string world" where
  "abc_declared =
     (let (a, w1) = Flag (BuildString ''A'') ''a'' [] initial;
          (oa, w2) = Build a w1;
          (b, w3) = Flag (BuildString ''B'') ''b'' [] w2;
          (ob, w4) = Build b w3;
          (c, w5) = Flag (BuildString ''C'') ''c'' [] w4;
          (oc, w6) = Build c w5
      in w6)"

text \<open>
  A prefix \<^verbatim>\<open>BuildString("db").Env("DB")\<close> and two siblings built from it, one with
  \<^verbatim>\<open>FlagP("db", "d", FlagIsFileName())\<close>, then one with \<^verbatim>\<open>Flag("database")\<close>.
\<close>

definition db_prefix :: "string Builder" where
  "db_prefix = Env (BuildString ''db'') ''DB''"

definition db_first :: "string Builder \<times> string world" where
  "db_first = FlagP db_prefix ''db'' ''d'' [FlagIsFileName] initial"

definition db_second :: "string Builder \<times> string world" where
  "db_second = Flag db_prefix ''database'' [] (snd db_first)"

section \<open>Properties\<close>

text \<open>
  C2. \<^verbatim>\<open>MustLookup\<close> returns the value of \<^verbatim>\<open>Lookup\<close> when \<^verbatim>\<open>Lookup\<close> finds one, and panics
  with the missing-option error, returning no value, when \<^verbatim>\<open>Lookup\<close> reports not found.
\<close>

theorem MustLookup_follows_Lookup:
  "(Lookup env w opt = Inr (Some v) \<longrightarrow> MustLookup env w opt = Inr v) \<and>
   (Lookup env w opt = Inr None \<longrightarrow> MustLookup env w opt = Inl MissingOption)"
  by (simp add: MustLookup_def)

theorem MustLookup_follows_Lookup_witness:
  "Lookup Map.empty initial (Opt (Default (BuildString ''name'') ''anon'')) = Inr (Some ''anon'') \<and>
   MustLookup Map.empty initial (Opt (Default (BuildString ''name'') ''anon'')) = Inr ''anon'' \<and>
   Lookup Map.empty initial (Opt (BuildString ''name'')) = Inr None \<and>
   MustLookup Map.empty initial (Opt (BuildString ''name'')) = Inl MissingOption"
proof -
  have found: "Lookup Map.empty initial (Opt (Default (BuildString ''name'') ''anon''))
                 = Inr (Some ''anon'')"
    by (simp add: Lookup_def lookupStr_def Default_def BuildString_def)
  have missing: "Lookup Map.empty initial (Opt (BuildString ''name'')) = Inr None"
    by (simp add: Lookup_def lookupStr_def BuildString_def)
  from found missing
    MustLookup_follows_Lookup [of Map.empty initial
      "Opt (Default (BuildString ''name'') ''anon'')" "''anon''"]
    MustLookup_follows_Lookup [of Map.empty initial "Opt (BuildString ''name'')" "''anon''"]
  show ?thesis by blast
qed

subsection \<open>Precedence\<close>

lemma lookupStr_by_source:
  "lookupStr env w opt =
     (case flagSource w (builder opt) of
        Some flagStr \<Rightarrow> (flagStr, True)
      | None \<Rightarrow>
          (case envSource env (builder opt) of
             Some envStr \<Rightarrow> (envStr, True)
           | None \<Rightarrow>
               (case defaultSource (builder opt) of
                  Some defStr \<Rightarrow> (defStr, True)
                | None \<Rightarrow> ([], False))))"
  by (cases "getFlag (heap w) (builder opt)"; cases "getEnv (builder opt)";
      cases "getDefault (builder opt)")
     (simp add: lookupStr_def flagSource_def envSource_def defaultSource_def
           split: option.splits bool.splits)

text \<open>
  C1. \<^verbatim>\<open>Lookup\<close> resolves by the fixed precedence flag, environment, default: it is the
  resolution stated in the words of the specification, for every option, environment
  and state.
\<close>

theorem Lookup_precedence:
  "Lookup env w opt = Lookup_by_precedence env w opt"
  by (simp add: Lookup_def Lookup_by_precedence_def converted_def lookupStr_by_source
           split: option.splits)


theorem Lookup_precedence_witness:
  "Lookup [''PORT'' \<mapsto> ''80''] (Parse (supplied ''port'' ''9090'') port_declared)
     (Opt (fst port_chain)) = Inr (Some 9090) \<and>
   Lookup [''PORT'' \<mapsto> ''80''] (Parse id port_declared) (Opt (fst port_chain)) = Inr (Some 80) \<and>
   Lookup Map.empty (Parse id port_declared) (Opt (fst port_chain)) = Inr (Some 8080) \<and>
   Lookup Map.empty initial (Opt (Env (BuildInt ''port'') ''PORT'')) = Inr None"
proof -
  have "Lookup_by_precedence [''PORT'' \<mapsto> ''80''] (Parse (supplied ''port'' ''9090'') port_declared)
     (Opt (fst port_chain)) = Inr (Some 9090)"
    by code_simp
  moreover have "Lookup_by_precedence [''PORT'' \<mapsto> ''80''] (Parse id port_declared)
     (Opt (fst port_chain)) = Inr (Some 80)"
    by code_simp
  moreover have "Lookup_by_precedence Map.empty (Parse id port_declared)
     (Opt (fst port_chain)) = Inr (Some 8080)"
    by code_simp
  moreover have "Lookup_by_precedence Map.empty initial
     (Opt (Env (BuildInt ''port'') ''PORT'')) = Inr (None :: int option)"
    by code_simp
  ultimately show ?thesis
    by (simp only: Lookup_precedence)
qed

subsection \<open>The converter of a chain\<close>

lemma getConvFunc_root: "getConvFunc b = getConvFunc (root b)"
  by (induction b) simp_all

lemma getKey_root: "getKey b = getKey (root b)"
  by (induction b) simp_all

lemma Lookup_by_source:
  "Lookup env w opt =
     (case flagSource w (builder opt) of
        Some flagStr \<Rightarrow> converted (getConvFunc (builder opt)) flagStr
      | None \<Rightarrow> Lookup_without_flag env opt)"
  by (simp add: Lookup_def Lookup_without_flag_def converted_def lookupStr_by_source
           split: option.splits)

text \<open>
  C7. Conversion is path-independent. Take three options over the same root, of any
  value type, and a text \<open>str\<close>: the first receives \<open>str\<close> from the flag source, the
  second from the environment source, the third from its default facet. All three
  lookups give the result of the root's converter on \<open>str\<close>.
\<close>

theorem conversion_path_independent:
  assumes "root bF = BRoot key convFunc" and "root bE = BRoot key convFunc"
    and "root bD = BRoot key convFunc"
    and "flagSource wF bF = Some str"
    and "flagSource wE bE = None" and "envSource envE bE = Some str"
    and "flagSource wD bD = None" and "envSource envD bD = None"
    and "defaultSource bD = Some str"
  shows "Lookup envF wF (Opt bF) = converted convFunc str \<and>
         Lookup envE wE (Opt bE) = converted convFunc str \<and>
         Lookup envD wD (Opt bD) = converted convFunc str"
proof -
  have "getConvFunc bF = convFunc" "getConvFunc bE = convFunc" "getConvFunc bD = convFunc"
    using assms(1-3) getConvFunc_root [of bF] getConvFunc_root [of bE] getConvFunc_root [of bD]
    by simp_all
  with assms(4-9) show ?thesis
    by (simp add: Lookup_by_source Lookup_without_flag_def)
qed

theorem conversion_path_independent_witness:
  "root (fst port_chain) = BRoot ''port'' (getConvFunc (fst port_chain)) \<and>
   flagSource (Parse (supplied ''port'' ''8080'') port_declared) (fst port_chain) = Some ''8080'' \<and>
   flagSource (Parse id port_declared) (fst port_chain) = None \<and>
   envSource [''PORT'' \<mapsto> ''8080''] (fst port_chain) = Some ''8080'' \<and>
   envSource Map.empty (fst port_chain) = None \<and>
   defaultSource (fst port_chain) = Some ''8080'' \<and>
   Lookup Map.empty (Parse (supplied ''port'' ''8080'') port_declared) (Opt (fst port_chain))
     = Inr (Some 8080) \<and>
   Lookup [''PORT'' \<mapsto> ''8080''] (Parse id port_declared) (Opt (fst port_chain))
     = Inr (Some 8080) \<and>
   Lookup Map.empty (Parse id port_declared) (Opt (fst port_chain)) = Inr (Some 8080)"
proof -
  have r: "root (fst port_chain) = BRoot ''port'' (getConvFunc (fst port_chain))"
    by (simp add: port_chain_def FlagP_def newFlagBuilder_def Default_def Env_def BuildInt_def)
  have f: "flagSource (Parse (supplied ''port'' ''8080'') port_declared) (fst port_chain)
             = Some ''8080''"
    by code_simp
  have n: "flagSource (Parse id port_declared) (fst port_chain) = None"
    by code_simp
  have e: "envSource [''PORT'' \<mapsto> ''8080''] (fst port_chain) = Some ''8080''"
    by (simp add: envSource_def port_chain_def FlagP_def newFlagBuilder_def Default_def Env_def)
  have m: "envSource Map.empty (fst port_chain) = None"
    by (simp add: envSource_def)
  have d: "defaultSource (fst port_chain) = Some ''8080''"
    by (simp add: defaultSource_def port_chain_def FlagP_def newFlagBuilder_def Default_def)
  have c: "converted (getConvFunc (fst port_chain)) ''8080'' = Inr (Some 8080)"
    by code_simp
  from conversion_path_independent [OF r r r f n e n m d, of Map.empty] r f n e m d c
  show ?thesis by simp
qed

text \<open>
  C10. An option rooted at \<^verbatim>\<open>BuildString\<close> never panics in \<^verbatim>\<open>Lookup\<close>, and when a source
  supplies the winning text \<open>str\<close> the lookup returns \<open>str\<close> itself, found.
\<close>

theorem BuildString_Lookup_identity:
  assumes "root (builder opt) = BuildString key"
  shows "Lookup env w opt \<noteq> Inl e \<and>
         (lookupStr env w opt = (str, True) \<longrightarrow> Lookup env w opt = Inr (Some str))"
proof -
  have "getConvFunc (builder opt) = (\<lambda>inp. Inr inp)"
    using assms getConvFunc_root [of "builder opt"] by (simp add: BuildString_def)
  then show ?thesis
    by (simp add: Lookup_def split: prod.splits bool.splits)
qed

theorem BuildString_Lookup_identity_witness:
  "root (builder (Opt (Default (Env (BuildString ''host'') ''HOST'') ''localhost'')))
     = BuildString ''host'' \<and>
   Lookup [''HOST'' \<mapsto> ''example.org''] initial
     (Opt (Default (Env (BuildString ''host'') ''HOST'') ''localhost'')) \<noteq> Inl MissingOption \<and>
   lookupStr [''HOST'' \<mapsto> ''example.org''] initial
     (Opt (Default (Env (BuildString ''host'') ''HOST'') ''localhost'')) = (''example.org'', True) \<and>
   Lookup [''HOST'' \<mapsto> ''example.org''] initial
     (Opt (Default (Env (BuildString ''host'') ''HOST'') ''localhost'')) = Inr (Some ''example.org'')"
proof -
  have r: "root (builder (Opt (Default (Env (BuildString ''host'') ''HOST'') ''localhost'')))
             = BuildString ''host''"
    by (simp add: Default_def Env_def BuildString_def)
  have l: "lookupStr [''HOST'' \<mapsto> ''example.org''] initial
             (Opt (Default (Env (BuildString ''host'') ''HOST'') ''localhost''))
             = (''example.org'', True)"
    by (simp add: lookupStr_def Default_def Env_def BuildString_def)
  from r l BuildString_Lookup_identity [OF r, of "[''HOST'' \<mapsto> ''example.org'']" initial
      MissingOption "''example.org''"]
  show ?thesis by blast
qed

text \<open>
  C9. When the chain defines a flag facet and the library has no flag of that name,
  as before \<^verbatim>\<open>Parse\<close>, the function literal of \<^verbatim>\<open>Lookup\<close> goes on to the environment
  and the default, and \<^verbatim>\<open>Lookup\<close> is the lookup of an option without a flag source.
\<close>

theorem Lookup_unregistered_flag:
  assumes "getFlag (heap w) (builder opt) = (name, shorthand, True)"
    and "pflag_Lookup (CommandLine w) name = None"
  shows "flagSource w (builder opt) = None \<and> Lookup env w opt = Lookup_without_flag env opt"
proof -
  from assms have "flagSource w (builder opt) = None"
    by (simp add: flagSource_def)
  then show ?thesis by (simp add: Lookup_by_source)
qed

theorem Lookup_unregistered_flag_witness:
  "getFlag (heap port_declared) (builder (Opt (fst port_chain))) = (''port'', ''p'', True) \<and>
   pflag_Lookup (CommandLine port_declared) ''port'' = None \<and>
   Lookup [''PORT'' \<mapsto> ''80''] port_declared (Opt (fst port_chain)) = Inr (Some 80) \<and>
   Lookup Map.empty port_declared (Opt (fst port_chain)) = Inr (Some 8080)"
proof -
  have g: "getFlag (heap port_declared) (builder (Opt (fst port_chain))) = (''port'', ''p'', True)"
    by (simp add: port_declared_def port_chain_def Build_def FlagP_def newFlagBuilder_def
          Default_def Env_def initial_def)
  have l: "pflag_Lookup (CommandLine port_declared) ''port'' = None"
    by (simp add: port_declared_def port_chain_def Build_def FlagP_def newFlagBuilder_def
          initial_def pflag_Lookup_def)
  have "Lookup_without_flag [''PORT'' \<mapsto> ''80''] (Opt (fst port_chain)) = Inr (Some 80)"
    by code_simp
  moreover have "Lookup_without_flag Map.empty (Opt (fst port_chain)) = Inr (Some 8080)"
    by code_simp
  ultimately show ?thesis
    using g l Lookup_unregistered_flag [OF g l, of "[''PORT'' \<mapsto> ''80'']"]
      Lookup_unregistered_flag [OF g l, of Map.empty]
    by simp
qed

text \<open>
  C8. The option \<^verbatim>\<open>BuildInt("retries").Env("RETRIES").Default("3").Build()\<close>, in any
  state: the lookup gives 3 when \<^verbatim>\<open>RETRIES\<close> is unset and 5 when it is set to \<^verbatim>\<open>5\<close>.
\<close>

theorem retries_example:
  "(env ''RETRIES'' = None \<longrightarrow>
      Lookup env w' (fst (Build (Default (Env (BuildInt ''retries'') ''RETRIES'') ''3'') w))
        = Inr (Some 3)) \<and>
   (env ''RETRIES'' = Some ''5'' \<longrightarrow>
      Lookup env w' (fst (Build (Default (Env (BuildInt ''retries'') ''RETRIES'') ''3'') w))
        = Inr (Some 5))"
  by (simp add: Lookup_def lookupStr_def Build_def Default_def Env_def BuildInt_def
        strconv_Atoi_def digit_def)


theorem retries_example_witness:
  "Lookup Map.empty initial
     (fst (Build (Default (Env (BuildInt ''retries'') ''RETRIES'') ''3'') initial)) = Inr (Some 3) \<and>
   Lookup [''RETRIES'' \<mapsto> ''5''] initial
     (fst (Build (Default (Env (BuildInt ''retries'') ''RETRIES'') ''3'') initial)) = Inr (Some 5)"
  using retries_example [of Map.empty initial initial]
    retries_example [of "[''RETRIES'' \<mapsto> ''5'']" initial initial]
  by simp

subsection \<open>The order of the hooks\<close>

lemma registerFlag_frame:
  "history (registerFlag a bd w) = history w \<and> pkgSet (registerFlag a bd w) = pkgSet w"
  by (simp add: registerFlag_def Let_def)

lemma beforeParse_frame:
  "history (beforeParse b bd w) = history w \<and> pkgSet (beforeParse b bd w) = pkgSet w"
  by (induction b arbitrary: w) (simp_all add: registerFlag_frame)

lemma afterParse_ident: "afterParse b bd w = w"
  by (induction b) simp_all

lemma beforeLoop_history:
  "history (beforeLoop i opts w) = history w @ map BeforeParseHook [i..<i + length opts] \<and>
   pkgSet (beforeLoop i opts w) = pkgSet w"
proof (induction opts arbitrary: i w)
  case Nil
  then show ?case by simp
next
  case (Cons opt opts)
  show ?case
    by (simp add: Cons.IH opt_beforeParse_def beforeParse_frame upt_conv_Cons del: upt_Suc)
qed

lemma afterLoop_history:
  "afterLoop i opts w = w\<lparr>history := history w @ map AfterParseHook [i..<i + length opts]\<rparr>"
proof (induction opts arbitrary: i w)
  case Nil
  then show ?case by simp
next
  case (Cons opt opts)
  show ?case
    by (simp add: Cons.IH opt_afterParse_def afterParse_ident upt_conv_Cons del: upt_Suc)
qed

text \<open>
  C3. \<^verbatim>\<open>Parse\<close> adds to the history the before-parse hook of every registered option
  in the order of \<^verbatim>\<open>pkgSet\<close>, then the external parse step, then the after-parse hook
  of every registered option in the same order; no before-parse hook stands after the
  external parse step. The flag set that the external step works on is the one left by
  all the before-parse hooks.
\<close>

theorem Parse_order:
  "history (Parse pflag_Parse w) =
     history w @ map BeforeParseHook [0..<length (pkgSet w)] @ [PflagParse] @
     map AfterParseHook [0..<length (pkgSet w)] \<and>
   BeforeParseHook i \<notin>
     set (dropWhile (\<lambda>e. e \<noteq> PflagParse)
           (drop (length (history w)) (history (Parse pflag_Parse w)))) \<and>
   CommandLine (Parse pflag_Parse w) = pflag_Parse (CommandLine (beforeLoop 0 (pkgSet w) w))"
proof -
  have h: "history (Parse pflag_Parse w) =
     history w @ map BeforeParseHook [0..<length (pkgSet w)] @ [PflagParse] @
     map AfterParseHook [0..<length (pkgSet w)]"
    by (simp add: Parse_def Let_def beforeLoop_history afterLoop_history)
  have "dropWhile (\<lambda>e. e \<noteq> PflagParse)
          (map BeforeParseHook [0..<length (pkgSet w)] @ [PflagParse] @
           map AfterParseHook [0..<length (pkgSet w)]) =
        [PflagParse] @ map AfterParseHook [0..<length (pkgSet w)]"
    by (subst dropWhile_append2) auto
  then have "BeforeParseHook i \<notin>
     set (dropWhile (\<lambda>e. e \<noteq> PflagParse)
           (drop (length (history w)) (history (Parse pflag_Parse w))))"
    by (auto simp: h)
  moreover have "CommandLine (Parse pflag_Parse w) =
      pflag_Parse (CommandLine (beforeLoop 0 (pkgSet w) w))"
    by (simp add: Parse_def Let_def afterLoop_history)
  ultimately show ?thesis using h by blast
qed

theorem Parse_order_witness:
  "history (Parse (supplied ''c'' ''on'') abc_declared) =
     [BeforeParseHook 0, BeforeParseHook 1, BeforeParseHook 2, PflagParse,
      AfterParseHook 0, AfterParseHook 1, AfterParseHook 2] \<and>
   map Name (CommandLine (Parse (supplied ''c'' ''on'') abc_declared)) = [''a'', ''b'', ''c''] \<and>
   map Changed (CommandLine (Parse (supplied ''c'' ''on'') abc_declared)) = [False, False, True]"
proof -
  have p: "length (pkgSet abc_declared) = 3" "history abc_declared = []"
    by (simp_all add: abc_declared_def Flag_def newFlagBuilder_def Build_def initial_def)
  have c: "CommandLine (beforeLoop 0 (pkgSet abc_declared) abc_declared) =
      pflag_StringP ''c'' [] [] [] (pflag_StringP ''b'' [] [] [] (pflag_StringP ''a'' [] [] [] []))"
    by (simp add: abc_declared_def Flag_def newFlagBuilder_def Build_def initial_def
          BuildString_def opt_beforeParse_def registerFlag_def Let_def)
  from Parse_order [of "supplied ''c'' ''on''" abc_declared 0] p c show ?thesis
    by (simp add: supplied_def pflag_StringP_def upt_conv_Cons del: upt_Suc)
qed

subsection \<open>Flag links without a name\<close>

lemma Name_annotate:
  "(\<And>f. Name (g f) = Name f) \<Longrightarrow> map Name (annotate g name fs) = map Name fs"
  by (induction fs) simp_all

lemma Name_marks:
  "map Name (cobra_MarkFlagDirname name fs) = map Name fs"
  "map Name (cobra_MarkFlagFilename name fs) = map Name fs"
  "map Name (cobra_MarkFlagRequired name fs) = map Name fs"
  by (simp_all add: cobra_MarkFlagDirname_def cobra_MarkFlagFilename_def
        cobra_MarkFlagRequired_def Name_annotate)

text \<open>
  What one flag link registers: its name, or the key when its name is empty and the
  cell exists, and nothing when that is empty too.
\<close>

lemma registerFlag_names:
  "map Name (CommandLine (registerFlag a bd w)) =
     map Name (CommandLine w) @
     (let name = (if flagName (heap w ! a) = [] \<and> a < length (heap w) then getKey bd
                  else flagName (heap w ! a))
      in if name = [] then [] else [name])"
  by (cases "a < length (heap w)")
     (simp_all add: registerFlag_def Let_def Name_marks pflag_StringP_def list_update_beyond)

lemma registerFlag_key_fallback:
  assumes "a < length (heap w)" and "flagName (heap w ! a) = []" and "getKey bd \<noteq> []"
  shows "flagName (heap (registerFlag a bd w) ! a) = getKey bd \<and>
         map Name (CommandLine (registerFlag a bd w)) = map Name (CommandLine w) @ [getKey bd]"
  using assms by (simp add: registerFlag_names) (simp add: registerFlag_def Let_def)

text \<open>The hooks register no flag with the empty name.\<close>

lemma registerFlag_no_empty_name:
  "[] \<notin> set (map Name (CommandLine w)) \<Longrightarrow>
   [] \<notin> set (map Name (CommandLine (registerFlag a bd w)))"
  by (simp add: registerFlag_names Let_def)

lemma beforeParse_no_empty_name:
  "[] \<notin> set (map Name (CommandLine w)) \<Longrightarrow>
   [] \<notin> set (map Name (CommandLine (beforeParse b bd w)))"
  by (induction b arbitrary: w) (simp_all add: registerFlag_no_empty_name del: set_map)

lemma beforeLoop_no_empty_name:
  "[] \<notin> set (map Name (CommandLine w)) \<Longrightarrow>
   [] \<notin> set (map Name (CommandLine (beforeLoop i opts w)))"
proof (induction opts arbitrary: i w)
  case Nil
  then show ?case by simp
next
  case (Cons opt opts)
  have "[] \<notin> set (map Name (CommandLine
          (opt_beforeParse opt (w\<lparr>history := history w @ [BeforeParseHook i]\<rparr>))))"
    unfolding opt_beforeParse_def
    by (rule beforeParse_no_empty_name) (use Cons.prems in simp)
  then show ?case
    using Cons.IH by simp
qed

lemma pflag_Lookup_None: "pflag_Lookup fs name = None \<longleftrightarrow> name \<notin> set (map Name fs)"
  by (auto simp: pflag_Lookup_def find_None_iff)

lemma registerFlag_unnamed:
  assumes "flagName (heap w ! a) = []" and "getKey bd = []"
  shows "registerFlag a bd w = w"
proof -
  have cell: "(heap w ! a)\<lparr>flagName := []\<rparr> = heap w ! a"
    using assms(1) by (cases "heap w ! a") simp
  show ?thesis
    using assms by (simp add: registerFlag_def Let_def cell)
qed

lemma beforeParse_unnamed:
  "flagLinksUnnamed (heap w) b \<Longrightarrow> getKey bd = [] \<Longrightarrow> beforeParse b bd w = w"
  by (induction b) (simp_all add: registerFlag_unnamed)

lemma getFlag_unnamed: "flagLinksUnnamed h b \<Longrightarrow> fst (getFlag h b) = []"
  by (induction b) simp_all

text \<open>
  C5, as the code has it. When the key is empty and every flag link of the chain has an
  empty name, the before-parse hook of the option changes nothing: no flag is registered
  and no cell is written. The lookup of such an option is the lookup of an option without
  a flag source, as long as the library holds no flag with the empty name.
\<close>

theorem unnamed_flag_links_register_nothing:
  assumes "getKey (builder opt) = []" and "flagLinksUnnamed (heap w) (builder opt)"
  shows "opt_beforeParse opt w = w \<and>
         (pflag_Lookup (CommandLine w) [] = None \<longrightarrow>
            Lookup env w opt = Lookup_without_flag env opt)"
proof -
  have "opt_beforeParse opt w = w"
    using assms by (simp add: opt_beforeParse_def beforeParse_unnamed)
  moreover have "flagSource w (builder opt) = None" if "pflag_Lookup (CommandLine w) [] = None"
    using that getFlag_unnamed [OF assms(2)] by (simp add: flagSource_def)
  ultimately show ?thesis by (simp add: Lookup_by_source)
qed

theorem unnamed_flag_links_register_nothing_witness:
  "getKey (builder (Opt (fst unnamed))) = [] \<and>
   flagLinksUnnamed (heap (snd unnamed)) (builder (Opt (fst unnamed))) \<and>
   opt_beforeParse (Opt (fst unnamed)) (snd unnamed) = snd unnamed \<and>
   pflag_Lookup (CommandLine (snd unnamed)) [] = None \<and>
   Lookup Map.empty (snd unnamed) (Opt (fst unnamed)) = Inr (Some ''plain'')"
proof -
  have k: "getKey (builder (Opt (fst unnamed))) = []"
    by (simp add: unnamed_def Flag_def newFlagBuilder_def Default_def BuildString_def)
  have u: "flagLinksUnnamed (heap (snd unnamed)) (builder (Opt (fst unnamed)))"
    by (simp add: unnamed_def Flag_def newFlagBuilder_def Default_def BuildString_def
          initial_def)
  have l: "pflag_Lookup (CommandLine (snd unnamed)) [] = None"
    by (simp add: unnamed_def Flag_def newFlagBuilder_def initial_def pflag_Lookup_def)
  have r: "Lookup_without_flag Map.empty (Opt (fst unnamed)) = Inr (Some ''plain'')"
    by (simp add: Lookup_without_flag_def envSource_def defaultSource_def converted_def
          unnamed_def Flag_def newFlagBuilder_def Default_def BuildString_def)
  from unnamed_flag_links_register_nothing [OF k u, of Map.empty] k u l r
  show ?thesis by simp
qed

text \<open>
  C5, as the claim states it, fails on a chain with a shadowed flag link. The chain
  \<^verbatim>\<open>BuildString("").Flag("verbose").Flag("")\<close> has an empty effective flag name, and its
  before-parse hook registers the flag \<^verbatim>\<open>verbose\<close> of the shadowed link.
\<close>

theorem shadowed_flag_counterexample:
  "effectiveFlagName (heap (snd shadowed)) (fst shadowed) = [] \<and>
   CommandLine (snd shadowed) = [] \<and>
   map Name (CommandLine (opt_beforeParse (Opt (fst shadowed)) (snd shadowed))) = [''verbose'']"
  by (simp add: shadowed_def effectiveFlagName_def Flag_def newFlagBuilder_def
        BuildString_def initial_def opt_beforeParse_def registerFlag_def Let_def
        pflag_StringP_def)


subsection \<open>Construction leaves the existing chains alone\<close>

lemma getFlag_append: "allocated h x \<Longrightarrow> getFlag (h @ cells) x = getFlag h x"
  by (induction x) (simp_all add: nth_append)

lemma flagCells_append: "allocated h x \<Longrightarrow> flagCells (h @ cells) x = flagCells h x"
  by (induction x) (simp_all add: nth_append)

lemma allocated_append: "allocated h x \<Longrightarrow> allocated (h @ cells) x"
  by (induction x) simp_all

lemma newFlagBuilder_state:
  "take (length (heap w)) (heap (snd (newFlagBuilder b name shorthand optFuncs w))) = heap w \<and>
   (snd (newFlagBuilder b name shorthand optFuncs w))\<lparr>heap := heap w\<rparr> = w"
  by (simp add: newFlagBuilder_def)

lemma newFlagBuilder_frame:
  assumes "allocated (heap w) x"
  shows "facets (heap (snd (newFlagBuilder b name shorthand optFuncs w))) x = facets (heap w) x"
    and "allocated (heap (snd (newFlagBuilder b name shorthand optFuncs w))) x"
  using assms
  by (simp_all add: facets_def newFlagBuilder_def getFlag_append flagCells_append
        allocated_append)

lemma newFlagBuilder_link:
  "getFlag (heap (snd (newFlagBuilder b name shorthand [] w)))
     (fst (newFlagBuilder b name shorthand [] w)) = (name, shorthand, True)"
  by (simp add: newFlagBuilder_def)

lemma newFlagBuilder_cells:
  "allocated (heap w) b \<Longrightarrow>
   flagCells (heap (snd (newFlagBuilder b name shorthand optFuncs w)))
     (fst (newFlagBuilder b name shorthand optFuncs w)) =
   applyOpts \<lparr>flagName = name, flagShorthand = shorthand, isDir = False,
              isFile = False, isRequired = False\<rparr> optFuncs # flagCells (heap w) b"
  by (simp add: newFlagBuilder_def flagCells_append)

text \<open>
  C6. A configuration call returns a new chain and leaves every chain built so far as it
  was. \<open>x\<close> is any such chain: the receiver, a shared prefix, a sibling. \<^verbatim>\<open>Flag\<close> and
  \<^verbatim>\<open>FlagP\<close>, called on any receiver \<open>b\<close> with any option functions, allocate one cell
  and write no other: the store before the call is the front of the store after it,
  nothing but the store changes, and the facets of \<open>x\<close>, with the name, shorthand and
  annotations of each of its flag links, are the same in the new state. The option
  functions reach the new cell only. \<^verbatim>\<open>Env\<close>, \<^verbatim>\<open>Default\<close> and \<^verbatim>\<open>Usage\<close> have no effect
  on the state at all. The chain that a call on \<open>x\<close> returns answers the facets of \<open>x\<close>
  but for the one that the call sets, and keeps the converter of \<open>x\<close>.
\<close>

theorem configuration_calls_frame:
  assumes "allocated (heap w) x"
  shows "facets (heap (snd (FlagP b name shorthand optFuncs w))) x = facets (heap w) x \<and>
         facets (heap (snd (Flag b name optFuncs w))) x = facets (heap w) x \<and>
         allocated (heap (snd (FlagP b name shorthand optFuncs w))) x \<and>
         allocated (heap (snd (Flag b name optFuncs w))) x \<and>
         take (length (heap w)) (heap (snd (FlagP b name shorthand optFuncs w))) = heap w \<and>
         take (length (heap w)) (heap (snd (Flag b name optFuncs w))) = heap w \<and>
         (snd (FlagP b name shorthand optFuncs w))\<lparr>heap := heap w\<rparr> = w \<and>
         (snd (Flag b name optFuncs w))\<lparr>heap := heap w\<rparr> = w \<and>
         flagCells (heap (snd (FlagP x name shorthand optFuncs w)))
             (fst (FlagP x name shorthand optFuncs w)) =
           applyOpts \<lparr>flagName = name, flagShorthand = shorthand, isDir = False,
                      isFile = False, isRequired = False\<rparr> optFuncs # flagCells (heap w) x \<and>
         flagCells (heap (snd (Flag x name optFuncs w))) (fst (Flag x name optFuncs w)) =
           applyOpts \<lparr>flagName = name, flagShorthand = [], isDir = False,
                      isFile = False, isRequired = False\<rparr> optFuncs # flagCells (heap w) x \<and>
         fst (snd (facets (heap (snd (FlagP b name shorthand [] w)))
                          (fst (FlagP b name shorthand [] w)))) = (name, shorthand, True) \<and>
         fst (snd (facets (heap (snd (Flag b name [] w))) (fst (Flag b name [] w))))
            = (name, [], True) \<and>
         facets h (Env x envName) =
           (getKey x, getFlag h x, flagCells h x, (envName, True), getDefault x, getUsage x) \<and>
         facets h (Default x v) =
           (getKey x, getFlag h x, flagCells h x, getEnv x, (v, True), getUsage x) \<and>
         facets h (Usage x usage) =
           (getKey x, getFlag h x, flagCells h x, getEnv x, getDefault x, (usage, True)) \<and>
         getConvFunc (fst (FlagP x name shorthand optFuncs w)) = getConvFunc x \<and>
         getConvFunc (fst (Flag x name optFuncs w)) = getConvFunc x \<and>
         getConvFunc (Env x envName) = getConvFunc x \<and>
         getConvFunc (Default x v) = getConvFunc x \<and>
         getConvFunc (Usage x usage) = getConvFunc x"
proof -
  have pure:
    "facets h (Env x envName) =
       (getKey x, getFlag h x, flagCells h x, (envName, True), getDefault x, getUsage x)"
    "facets h (Default x v) =
       (getKey x, getFlag h x, flagCells h x, getEnv x, (v, True), getUsage x)"
    "facets h (Usage x usage) =
       (getKey x, getFlag h x, flagCells h x, getEnv x, getDefault x, (usage, True))"
    by (simp_all add: facets_def Env_def Default_def Usage_def)
  have conv: "getConvFunc (fst (FlagP x name shorthand optFuncs w)) = getConvFunc x"
    "getConvFunc (fst (Flag x name optFuncs w)) = getConvFunc x"
    "getConvFunc (Env x envName) = getConvFunc x"
    "getConvFunc (Default x v) = getConvFunc x"
    "getConvFunc (Usage x usage) = getConvFunc x"
    by (simp_all add: FlagP_def Flag_def newFlagBuilder_def Env_def Default_def Usage_def)
  have link:
    "fst (snd (facets (heap (snd (FlagP b name shorthand [] w)))
                      (fst (FlagP b name shorthand [] w)))) = (name, shorthand, True)"
    "fst (snd (facets (heap (snd (Flag b name [] w))) (fst (Flag b name [] w))))
       = (name, [], True)"
    by (simp_all add: facets_def FlagP_def Flag_def newFlagBuilder_link)
  have cells:
    "flagCells (heap (snd (FlagP x name shorthand optFuncs w)))
         (fst (FlagP x name shorthand optFuncs w)) =
       applyOpts \<lparr>flagName = name, flagShorthand = shorthand, isDir = False,
                  isFile = False, isRequired = False\<rparr> optFuncs # flagCells (heap w) x"
    "flagCells (heap (snd (Flag x name optFuncs w))) (fst (Flag x name optFuncs w)) =
       applyOpts \<lparr>flagName = name, flagShorthand = [], isDir = False,
                  isFile = False, isRequired = False\<rparr> optFuncs # flagCells (heap w) x"
    using newFlagBuilder_cells [OF assms] by (simp_all add: FlagP_def Flag_def)
  have frame:
    "facets (heap (snd (FlagP b name shorthand optFuncs w))) x = facets (heap w) x"
    "facets (heap (snd (Flag b name optFuncs w))) x = facets (heap w) x"
    "allocated (heap (snd (FlagP b name shorthand optFuncs w))) x"
    "allocated (heap (snd (Flag b name optFuncs w))) x"
    using newFlagBuilder_frame [OF assms] by (simp_all add: FlagP_def Flag_def)
  have state:
    "take (length (heap w)) (heap (snd (FlagP b name shorthand optFuncs w))) = heap w"
    "take (length (heap w)) (heap (snd (Flag b name optFuncs w))) = heap w"
    "(snd (FlagP b name shorthand optFuncs w))\<lparr>heap := heap w\<rparr> = w"
    "(snd (Flag b name optFuncs w))\<lparr>heap := heap w\<rparr> = w"
    by (simp_all add: FlagP_def Flag_def newFlagBuilder_state)
  from frame state cells link pure conv show ?thesis
    by (intro conjI)
qed

theorem configuration_calls_frame_witness:
  "allocated (heap (snd db_first)) (fst db_first) \<and>
   facets (heap (snd db_first)) (fst db_first)
     = (''db'', (''db'', ''d'', True),
        [\<lparr>flagName = ''db'', flagShorthand = ''d'', isDir = False, isFile = True,
          isRequired = False\<rparr>],
        (''DB'', True), ([], False), ([], False)) \<and>
   facets (heap (snd db_second)) (fst db_first)
     = (''db'', (''db'', ''d'', True),
        [\<lparr>flagName = ''db'', flagShorthand = ''d'', isDir = False, isFile = True,
          isRequired = False\<rparr>],
        (''DB'', True), ([], False), ([], False)) \<and>
   facets (heap (snd db_second)) (fst db_second)
     = (''db'', (''database'', [], True),
        [\<lparr>flagName = ''database'', flagShorthand = [], isDir = False, isFile = False,
          isRequired = False\<rparr>],
        (''DB'', True), ([], False), ([], False)) \<and>
   facets (heap (snd db_second)) db_prefix
     = (''db'', ([], [], False), [], (''DB'', True), ([], False), ([], False)) \<and>
   take (length (heap (snd db_first))) (heap (snd db_second)) = heap (snd db_first)"
proof -
  have a: "allocated (heap (snd db_first)) (fst db_first)"
    by (simp add: db_first_def db_prefix_def FlagP_def newFlagBuilder_def Env_def
          BuildString_def initial_def)
  have f: "facets (heap (snd db_first)) (fst db_first)
     = (''db'', (''db'', ''d'', True),
        [\<lparr>flagName = ''db'', flagShorthand = ''d'', isDir = False, isFile = True,
          isRequired = False\<rparr>],
        (''DB'', True), ([], False), ([], False))"
    by (simp add: facets_def db_first_def db_prefix_def FlagP_def newFlagBuilder_def Env_def
          BuildString_def initial_def FlagIsFileName_def)
  have s: "facets (heap (snd db_second)) (fst db_second)
     = (''db'', (''database'', [], True),
        [\<lparr>flagName = ''database'', flagShorthand = [], isDir = False, isFile = False,
          isRequired = False\<rparr>],
        (''DB'', True), ([], False), ([], False))"
    by (simp add: facets_def db_second_def db_first_def db_prefix_def Flag_def FlagP_def
          newFlagBuilder_def Env_def BuildString_def initial_def)
  have p: "facets (heap (snd db_second)) db_prefix
     = (''db'', ([], [], False), [], (''DB'', True), ([], False), ([], False))"
    by (simp add: facets_def db_prefix_def Env_def BuildString_def)
  from configuration_calls_frame [OF a, of db_prefix "''database''" "[]" "[]"] a f s p
  show ?thesis by (simp add: db_second_def)
qed

subsection \<open>Empty names\<close>

lemma applyOpts_package_funcs:
  "set optFuncs \<subseteq> {FlagIsDirName, FlagIsFileName, FlagIsRequired} \<Longrightarrow>
   flagName (applyOpts b optFuncs) = flagName b \<and>
   flagShorthand (applyOpts b optFuncs) = flagShorthand b"
proof (induction optFuncs arbitrary: b)
  case Nil
  then show ?case by simp
next
  case (Cons optFunc optFuncs)
  then have "optFunc = FlagIsDirName \<or> optFunc = FlagIsFileName \<or> optFunc = FlagIsRequired"
    by auto
  then have "flagName (optFunc b) = flagName b \<and> flagShorthand (optFunc b) = flagShorthand b"
    by (auto simp: FlagIsDirName_def FlagIsFileName_def FlagIsRequired_def)
  with Cons show ?case by simp
qed

text \<open>
  C4, as the code has it. \<^verbatim>\<open>Env\<close>, \<^verbatim>\<open>Flag\<close> and \<^verbatim>\<open>FlagP\<close> accept an empty name: each
  returns a new link, on any receiver and in any state, whose facet is defined and
  carries the empty name.
\<close>

theorem empty_names_are_accepted:
  "getEnv (Env b []) = ([], True) \<and>
   (set optFuncs \<subseteq> {FlagIsDirName, FlagIsFileName, FlagIsRequired} \<longrightarrow>
      getFlag (heap (snd (Flag b [] optFuncs w))) (fst (Flag b [] optFuncs w))
        = ([], [], True) \<and>
      getFlag (heap (snd (FlagP b [] shorthand optFuncs w))) (fst (FlagP b [] shorthand optFuncs w))
        = ([], shorthand, True))"
proof -
  have "getFlag (heap (snd (newFlagBuilder b [] sh optFuncs w)))
          (fst (newFlagBuilder b [] sh optFuncs w)) = ([], sh, True)"
    if "set optFuncs \<subseteq> {FlagIsDirName, FlagIsFileName, FlagIsRequired}" for sh
    using applyOpts_package_funcs [OF that] by (simp add: newFlagBuilder_def)
  then show ?thesis by (simp add: Env_def Flag_def FlagP_def)
qed

theorem empty_names_are_accepted_witness:
  "set [FlagIsRequired] \<subseteq> {FlagIsDirName, FlagIsFileName, FlagIsRequired} \<and>
   getEnv (Env (BuildBool ''quiet'') []) = ([], True) \<and>
   getFlag (heap (snd (Flag (BuildBool ''quiet'') [] [FlagIsRequired] initial)))
     (fst (Flag (BuildBool ''quiet'') [] [FlagIsRequired] initial)) = ([], [], True) \<and>
   getFlag (heap (snd (FlagP (BuildBool ''quiet'') [] ''q'' [FlagIsRequired] initial)))
     (fst (FlagP (BuildBool ''quiet'') [] ''q'' [FlagIsRequired] initial)) = ([], ''q'', True)"
  using empty_names_are_accepted [of "BuildBool ''quiet''" "[FlagIsRequired]" initial "''q''"]
  by simp

text \<open>
  C4, as the claim states it, fails: \<^verbatim>\<open>BuildString("home").Env("")\<close> and
  \<^verbatim>\<open>BuildString("home").Flag("")\<close> at program start return chains whose environment and
  flag facets are defined with the empty name; nothing fails at the call.
\<close>

theorem empty_name_counterexample:
  "Env (BuildString ''home'') [] = BEnv (BuildString ''home'') [] \<and>
   getEnv (Env (BuildString ''home'') []) = ([], True) \<and>
   fst (Flag (BuildString ''home'') [] [] initial) = BFlag (BuildString ''home'') 0 \<and>
   getFlag (heap (snd (Flag (BuildString ''home'') [] [] initial)))
     (fst (Flag (BuildString ''home'') [] [] initial)) = ([], [], True)"
  by (simp add: Env_def Flag_def newFlagBuilder_def initial_def)


end
